theory Spec2Isabelle
  imports Main "HOL-Library.Word"
begin

unbundle bit_operations_syntax

section \<open>Capabilities shared by the decorators (package gouache)\<close>

text \<open>
  Keys are Go strings. A payload has Go type \<open>any\<close>: it is \<open>'v option\<close> here, with
  \<open>None\<close> for the nil interface value, and is never inspected. A Go \<open>error\<close> result is
  \<open>err option\<close>, with \<open>None\<close> for nil.
\<close>

type_synonym key = string

text \<open>
  Modelled from the spec: the sentinel \<open>gouache.ErrCacheMiss\<close> is declared in the root
  package of the repository, whose Go file is not among the sources; the README quotes it
  as \<open>var ErrCacheMiss = errors.New("gouache: key not found")\<close>. The spec (section 7)
  names it a sentinel told apart by an identity or kind check. Errors are the sentinel,
  any other error (named by its text), or an error wrapping another one, which is what
  \<open>errors.Is\<close> looks through.
\<close>

datatype err = ErrCacheMiss | ErrOther string | ErrWrap string err

text \<open>Go's \<open>errors.Is(e, target)\<close>: \<open>e\<close> or an error in its chain of wrapped errors equals the target.\<close>

fun errors_Is :: "err \<Rightarrow> err \<Rightarrow> bool" where
  "errors_Is (ErrWrap m e) t = (ErrWrap m e = t \<or> errors_Is e t)"
| "errors_Is e t = (e = t)"

text \<open>The test \<open>errors.Is(err, gouache.ErrCacheMiss)\<close> on a possibly nil error.\<close>

definition is_cache_miss :: "err option \<Rightarrow> bool" where
  "is_cache_miss r = (case r of None \<Rightarrow> False | Some e \<Rightarrow> errors_Is e ErrCacheMiss)"

text \<open>
  Modelled from the spec: the interfaces \<open>gouache.Cache\<close> and \<open>gouache.Database\<close> are
  declared in the root package as well; the spec (section 6) and the README give their
  methods. An implementation is a record of its methods, each a function of the
  implementation's own state (\<open>'c\<close> for a cache, \<open>'d\<close> for a database) that returns its
  results and the state after the call. The context argument carries cancellation only
  and is left out.
\<close>

record ('c, 'v) Cache =
  cache_Get :: "key \<Rightarrow> 'c \<Rightarrow> ('v option \<times> err option) \<times> 'c"
  cache_Set :: "key \<Rightarrow> 'v option \<Rightarrow> 'c \<Rightarrow> err option \<times> 'c"
  cache_Delete :: "key \<Rightarrow> 'c \<Rightarrow> err option \<times> 'c"

record ('d, 'v) Database =
  db_Select :: "key \<Rightarrow> 'd \<Rightarrow> ('v option \<times> err option) \<times> 'd"
  db_Upsert :: "key \<Rightarrow> 'v option \<Rightarrow> 'd \<Rightarrow> err option \<times> 'd"
  db_Delete :: "key \<Rightarrow> 'd \<Rightarrow> err option \<times> 'd"

section \<open>Delay double delete (src/ddd/cache.go)\<close>

text \<open>
  The closure that \<open>Set\<close> and \<open>Delete\<close> hand to the Gopher captures the key (and the
  cache and its options, which are fixed); both closures have the same body, \<open>run_task\<close>
  below. A closure is represented by what it captures.
\<close>

datatype task = SecondDelete key

text \<open>
  Every call the decorator makes on a collaborator is recorded, in order, in a trace.
  \<open>EvGopher t\<close> is the call of \<open>Options.Gopher\<close> with the closure \<open>t\<close>, and
  \<open>EvErrorHandler e\<close> the call of \<open>Options.ErrorHandler\<close> with \<open>e\<close>: the handler is a
  callback without result, and a call of it is all the decorator does with it.
\<close>

datatype 'v event =
    EvCacheGet key
  | EvCacheSet key "'v option"
  | EvCacheDelete key
  | EvDbSelect key
  | EvDbUpsert key "'v option"
  | EvDbDelete key
  | EvGopher task
  | EvErrorHandler err

text \<open>
  The state a call runs in: the state of the wrapped cache, the state of the wrapped
  database, the closures started with \<open>go\<close> that have not run yet, and the trace.
\<close>

record ('c, 'd, 'v) world =
  cache_state :: 'c
  db_state :: 'd
  goroutines :: "task list"
  trace :: "'v event list"

text \<open>
  \<open>type Gopher func(f func()) error\<close>: any function of the closure and the state.
  \<open>options\<close> is the record as a constructed cache holds it, after \<open>Correct\<close>, where the
  Gopher is never nil. Of its other fields, \<open>DelayDuration\<close> and \<open>DeleteTimeout\<close> only
  feed \<open>time.Sleep\<close> and the timeout of the context, which are real time and have no
  counterpart here, and a call of \<open>ErrorHandler\<close> is an event of the trace.
\<close>

type_synonym ('c, 'd, 'v) Gopher_fn =
  "task \<Rightarrow> ('c, 'd, 'v) world \<Rightarrow> err option \<times> ('c, 'd, 'v) world"

record ('c, 'd, 'v) options =
  Gopher :: "('c, 'd, 'v) Gopher_fn"

record ('c, 'd, 'v) cache =
  Options :: "('c, 'd, 'v) options"
  Cache :: "('c, 'v) Cache"
  Database :: "('d, 'v) Database"

subsection \<open>Calls on the collaborators\<close>

definition call_cache_Get ::
  "('c, 'v) Cache \<Rightarrow> key \<Rightarrow> ('c, 'd, 'v) world \<Rightarrow> ('v option \<times> err option) \<times> ('c, 'd, 'v) world" where
  "call_cache_Get ca k s =
     (case cache_Get ca k (cache_state s) of
        (r, cs) \<Rightarrow> (r, s\<lparr>cache_state := cs, trace := trace s @ [EvCacheGet k]\<rparr>))"

definition call_cache_Set ::
  "('c, 'v) Cache \<Rightarrow> key \<Rightarrow> 'v option \<Rightarrow> ('c, 'd, 'v) world \<Rightarrow> err option \<times> ('c, 'd, 'v) world" where
  "call_cache_Set ca k v s =
     (case cache_Set ca k v (cache_state s) of
        (r, cs) \<Rightarrow> (r, s\<lparr>cache_state := cs, trace := trace s @ [EvCacheSet k v]\<rparr>))"

definition call_cache_Delete ::
  "('c, 'v) Cache \<Rightarrow> key \<Rightarrow> ('c, 'd, 'v) world \<Rightarrow> err option \<times> ('c, 'd, 'v) world" where
  "call_cache_Delete ca k s =
     (case cache_Delete ca k (cache_state s) of
        (r, cs) \<Rightarrow> (r, s\<lparr>cache_state := cs, trace := trace s @ [EvCacheDelete k]\<rparr>))"

definition call_db_Select ::
  "('d, 'v) Database \<Rightarrow> key \<Rightarrow> ('c, 'd, 'v) world \<Rightarrow> ('v option \<times> err option) \<times> ('c, 'd, 'v) world" where
  "call_db_Select db k s =
     (case db_Select db k (db_state s) of
        (r, ds) \<Rightarrow> (r, s\<lparr>db_state := ds, trace := trace s @ [EvDbSelect k]\<rparr>))"

definition call_db_Upsert ::
  "('d, 'v) Database \<Rightarrow> key \<Rightarrow> 'v option \<Rightarrow> ('c, 'd, 'v) world \<Rightarrow> err option \<times> ('c, 'd, 'v) world" where
  "call_db_Upsert db k v s =
     (case db_Upsert db k v (db_state s) of
        (r, ds) \<Rightarrow> (r, s\<lparr>db_state := ds, trace := trace s @ [EvDbUpsert k v]\<rparr>))"

definition call_db_Delete ::
  "('d, 'v) Database \<Rightarrow> key \<Rightarrow> ('c, 'd, 'v) world \<Rightarrow> err option \<times> ('c, 'd, 'v) world" where
  "call_db_Delete db k s =
     (case db_Delete db k (db_state s) of
        (r, ds) \<Rightarrow> (r, s\<lparr>db_state := ds, trace := trace s @ [EvDbDelete k]\<rparr>))"

definition call_ErrorHandler :: "err \<Rightarrow> ('c, 'd, 'v) world \<Rightarrow> ('c, 'd, 'v) world" where
  "call_ErrorHandler e s = s\<lparr>trace := trace s @ [EvErrorHandler e]\<rparr>"

definition call_Gopher ::
  "('c, 'd, 'v) options \<Rightarrow> task \<Rightarrow> ('c, 'd, 'v) world \<Rightarrow> err option \<times> ('c, 'd, 'v) world" where
  "call_Gopher opts t s = Gopher opts t (s\<lparr>trace := trace s @ [EvGopher t]\<rparr>)"

subsection \<open>The delayed second deletion\<close>

text \<open>
  The body of the closure of \<open>Set\<close> and \<open>Delete\<close>: after the sleep, delete the key from
  the cache and hand a failure to the error handler. The closure has no result.
\<close>

definition run_task :: "('c, 'v) Cache \<Rightarrow> task \<Rightarrow> ('c, 'd, 'v) world \<Rightarrow> ('c, 'd, 'v) world" where
  "run_task ca t s =
     (case t of SecondDelete k \<Rightarrow>
        (case call_cache_Delete ca k s of
           (Some e, s1) \<Rightarrow> call_ErrorHandler e s1
         | (None, s1) \<Rightarrow> s1))"

text \<open>
  The Gopher that \<open>Correct\<close> installs when none is configured, \<open>go f(); return nil\<close>: the
  closure is started and has not run when the Gopher returns.
\<close>

definition default_Gopher :: "('c, 'd, 'v) Gopher_fn" where
  "default_Gopher t s = (None, s\<lparr>goroutines := goroutines s @ [t]\<rparr>)"

text \<open>A configured Gopher that runs the closure before it returns, \<open>f(); return nil\<close>.\<close>

definition inline_Gopher :: "('c, 'v) Cache \<Rightarrow> ('c, 'd, 'v) Gopher_fn" where
  "inline_Gopher ca t s = (None, run_task ca t s)"

text \<open>A configured Gopher that refuses the closure, \<open>return e\<close>.\<close>

definition rejecting_Gopher :: "err \<Rightarrow> ('c, 'd, 'v) Gopher_fn" where
  "rejecting_Gopher e t s = (Some e, s)"

text \<open>
  The Go scheduler runs a started closure at some later time: the \<open>i\<close>-th of those
  waiting is taken out and run.
\<close>

definition run_goroutine :: "('c, 'v) Cache \<Rightarrow> nat \<Rightarrow> ('c, 'd, 'v) world \<Rightarrow> ('c, 'd, 'v) world" where
  "run_goroutine ca i s =
     (if i < length (goroutines s)
      then run_task ca (goroutines s ! i)
             (s\<lparr>goroutines := take i (goroutines s) @ drop (Suc i) (goroutines s)\<rparr>)
      else s)"

subsection \<open>Get, Set and Delete\<close>

definition ddd_Get ::
  "('c, 'd, 'v) cache \<Rightarrow> key \<Rightarrow> ('c, 'd, 'v) world \<Rightarrow> ('v option \<times> err option) \<times> ('c, 'd, 'v) world" where
  "ddd_Get c k s =
     (case call_cache_Get (Cache c) k s of
        ((val, er), s1) \<Rightarrow>
          if is_cache_miss er
          then (case call_db_Select (Database c) k s1 of
                  ((dval, Some e), s2) \<Rightarrow> ((None, Some e), s2)
                | ((dval, None), s2) \<Rightarrow>
                    (case call_cache_Set (Cache c) k dval s2 of
                       (r, s3) \<Rightarrow> ((dval, r), s3)))
          else ((val, er), s1))"

definition ddd_Set ::
  "('c, 'd, 'v) cache \<Rightarrow> key \<Rightarrow> 'v option \<Rightarrow> ('c, 'd, 'v) world \<Rightarrow> err option \<times> ('c, 'd, 'v) world" where
  "ddd_Set c k v s =
     (case call_cache_Delete (Cache c) k s of
        (Some e, s1) \<Rightarrow> (Some e, s1)
      | (None, s1) \<Rightarrow>
          (case call_db_Upsert (Database c) k v s1 of
             (Some e, s2) \<Rightarrow> (Some e, s2)
           | (None, s2) \<Rightarrow> call_Gopher (Options c) (SecondDelete k) s2))"

definition ddd_Delete ::
  "('c, 'd, 'v) cache \<Rightarrow> key \<Rightarrow> ('c, 'd, 'v) world \<Rightarrow> err option \<times> ('c, 'd, 'v) world" where
  "ddd_Delete c k s =
     (case call_cache_Delete (Cache c) k s of
        (Some e, s1) \<Rightarrow> (Some e, s1)
      | (None, s1) \<Rightarrow>
          (case call_db_Delete (Database c) k s1 of
             (Some e, s2) \<Rightarrow> (Some e, s2)
           | (None, s2) \<Rightarrow> call_Gopher (Options c) (SecondDelete k) s2))"

section \<open>Sharded cache (src/sharded/cache.go)\<close>

text \<open>
  A call either panics or returns. \<open>bucket\<close> returns a bucket and a nil error, or no
  bucket and an error: \<open>Done (Inl e)\<close> is the return of the error \<open>e\<close>.
\<close>

datatype 'a result = Panic string | Done 'a

type_synonym byte = "8 word"

text \<open>
  A value of Go's interface \<open>hash.Hash\<close>, from the standard library: the bytes written
  to it so far, and its methods as functions of those bytes. \<open>hash_Write\<close> gives the
  error of \<open>Write(p)\<close>; a write without error appends \<open>p\<close>. \<open>hash_Sum32\<close> and
  \<open>hash_Sum64\<close> are present when the dynamic type also implements \<open>hash.Hash32\<close> and
  \<open>hash.Hash64\<close>: the type assertions \<open>h.(hash.Hash32)\<close> and \<open>h.(hash.Hash64)\<close> panic
  when they are absent.
\<close>

record hash_Hash =
  written :: "byte list"
  hash_Write :: "byte list \<Rightarrow> byte list \<Rightarrow> err option"
  hash_Size :: "byte list \<Rightarrow> int"
  hash_Sum :: "byte list \<Rightarrow> byte list \<Rightarrow> byte list"
  hash_Sum32 :: "(byte list \<Rightarrow> 32 word) option"
  hash_Sum64 :: "(byte list \<Rightarrow> 64 word) option"

text \<open>\<open>type HashFactory func(ctx, key) (hash.Hash, error)\<close>; either result may be nil.\<close>

type_synonym HashFactory_fn = "key \<Rightarrow> hash_Hash option \<times> err option"

record sharded_options =
  HashFactory :: "HashFactory_fn option"

record ('c, 'v) sharded_cache =
  sharded_Options :: sharded_options
  Buckets :: "('c, 'v) Cache list"

text \<open>\<open>[]byte(key)\<close>: the bytes of the string.\<close>

definition bytes_of :: "key \<Rightarrow> byte list" where
  "bytes_of k = map (\<lambda>ch. of_nat (of_char ch)) k"

text \<open>
  \<open>fnv.New32a()\<close> of the standard library, the hash of the default factory: FNV-1a on
  32 bits, with offset basis 2166136261 and prime 16777619; its digest is the sum in
  big-endian order.
\<close>

definition fnv32a :: "byte list \<Rightarrow> 32 word" where
  "fnv32a bs = foldl (\<lambda>h b. (h XOR ucast b) * 16777619) 2166136261 bs"

definition be_bytes32 :: "32 word \<Rightarrow> byte list" where
  "be_bytes32 w = [ucast (drop_bit 24 w), ucast (drop_bit 16 w), ucast (drop_bit 8 w), ucast w]"

definition fnv_New32a :: hash_Hash where
  "fnv_New32a =
     \<lparr>written = [],
      hash_Write = (\<lambda>ws p. None),
      hash_Size = (\<lambda>ws. 4),
      hash_Sum = (\<lambda>ws b. b @ be_bytes32 (fnv32a ws)),
      hash_Sum32 = Some fnv32a,
      hash_Sum64 = None\<rparr>"

subsection \<open>Options\<close>

text \<open>
  \<open>type Option func(o *options)\<close>: a function value as \<open>WithHashFactory\<close> returns it,
  which updates the options in place.
\<close>

type_synonym sharded_Option = "sharded_options \<Rightarrow> sharded_options"

definition WithHashFactory :: "HashFactory_fn option \<Rightarrow> sharded_Option" where
  "WithHashFactory hashFactory = (\<lambda>o'. o'\<lparr>HashFactory := hashFactory\<rparr>)"

definition Apply :: "sharded_options \<Rightarrow> sharded_Option list \<Rightarrow> sharded_options" where
  "Apply o' opts = foldl (\<lambda>acc opt. opt acc) o' opts"

definition Correct :: "sharded_options \<Rightarrow> sharded_options" where
  "Correct o' =
     (if HashFactory o' = None
      then o'\<lparr>HashFactory := Some (\<lambda>k. (Some fnv_New32a, None))\<rparr>
      else o')"

definition newOptions :: "sharded_Option list \<Rightarrow> sharded_options" where
  "newOptions opts = Correct (Apply \<lparr>HashFactory = None\<rparr> opts)"

definition sharded_New ::
  "('c, 'v) Cache list \<Rightarrow> sharded_Option list \<Rightarrow> ('c, 'v) sharded_cache result" where
  "sharded_New buckets opts =
     (if length buckets = 0 then Panic ''gouache: buckets is empty''
      else Done \<lparr>sharded_Options = newOptions opts, Buckets = buckets\<rparr>)"

subsection \<open>Bucket resolution\<close>

text \<open>
  \<open>cache.Buckets[i]\<close> panics when \<open>i\<close> is out of range. The model names the selected
  bucket by its position in \<open>Buckets\<close>.
\<close>

definition select_bucket :: "('c, 'v) sharded_cache \<Rightarrow> nat \<Rightarrow> (err + nat) result" where
  "select_bucket c i =
     (if i < length (Buckets c) then Done (Inr i) else Panic ''index out of range'')"

text \<open>
  \<open>binary.BigEndian.Uint32\<close> on the four bytes \<open>sum[:4]\<close>; \<open>bucket\<close> calls it on
  digests of four bytes or more only.
\<close>

definition BigEndian_Uint32 :: "byte list \<Rightarrow> 32 word" where
  "BigEndian_Uint32 b =
     push_bit 24 (ucast (b ! 0)) OR push_bit 16 (ucast (b ! 1)) OR
     push_bit 8 (ucast (b ! 2)) OR ucast (b ! 3)"

text \<open>
  \<open>len(cache.Buckets)\<close> has Go type \<open>int\<close>, taken as the 64-bit \<open>int\<close> of the 64-bit
  platforms: the conversion \<open>uint32(len(...))\<close> keeps the low 32 bits, \<open>uint64(len(...))\<close>
  keeps the length, and \<open>int(...)\<close> of a \<open>uint32\<close> is not negative, so that the remainder
  of the last case is the remainder of natural numbers. A remainder by zero panics.
\<close>

definition bucket :: "('c, 'v) sharded_cache \<Rightarrow> key \<Rightarrow> (err + nat) result" where
  "bucket c k =
     (case HashFactory (sharded_Options c) of
        None \<Rightarrow> Panic ''invalid memory address or nil pointer dereference''
      | Some hashFactory \<Rightarrow>
          (case hashFactory k of
             (_, Some e) \<Rightarrow> Done (Inl e)
           | (None, None) \<Rightarrow> Panic ''invalid memory address or nil pointer dereference''
           | (Some h0, None) \<Rightarrow>
               (case hash_Write h0 (written h0) (bytes_of k) of
                  Some e \<Rightarrow> Done (Inl e)
                | None \<Rightarrow>
                    (let ws = written h0 @ bytes_of k; n = length (Buckets c) in
                     if hash_Size h0 ws = 4 then
                       (case hash_Sum32 h0 of
                          None \<Rightarrow> Panic ''interface conversion: not hash.Hash32''
                        | Some f \<Rightarrow>
                            (let sum32 = f ws; m = (of_nat n :: 32 word) in
                             if m = 0 then Panic ''integer divide by zero''
                             else select_bucket c (unat (sum32 mod m))))
                     else if hash_Size h0 ws = 8 then
                       (case hash_Sum64 h0 of
                          None \<Rightarrow> Panic ''interface conversion: not hash.Hash64''
                        | Some g \<Rightarrow>
                            (let sum64 = g ws; m = (of_nat n :: 64 word) in
                             if m = 0 then Panic ''integer divide by zero''
                             else select_bucket c (unat (sum64 mod m))))
                     else
                       (let sum = hash_Sum h0 ws [] in
                        if length sum < 4 then select_bucket c 0
                        else
                          (let sum32 = unat (BigEndian_Uint32 (take 4 sum)) in
                           if n = 0 then Panic ''integer divide by zero''
                           else select_bucket c (sum32 mod n)))))))"

subsection \<open>Get, Set and Delete\<close>

text \<open>The state of the sharded cache is the state of each bucket, by position.\<close>

definition sharded_Get ::
  "('c, 'v) sharded_cache \<Rightarrow> key \<Rightarrow> (nat \<Rightarrow> 'c) \<Rightarrow> ('v option \<times> err option) result \<times> (nat \<Rightarrow> 'c)" where
  "sharded_Get c k st =
     (case bucket c k of
        Panic p \<Rightarrow> (Panic p, st)
      | Done (Inl e) \<Rightarrow> (Done (None, Some e), st)
      | Done (Inr i) \<Rightarrow>
          (case cache_Get (Buckets c ! i) k (st i) of
             (r, cs) \<Rightarrow> (Done r, st(i := cs))))"

definition sharded_Set ::
  "('c, 'v) sharded_cache \<Rightarrow> key \<Rightarrow> 'v option \<Rightarrow> (nat \<Rightarrow> 'c) \<Rightarrow> err option result \<times> (nat \<Rightarrow> 'c)" where
  "sharded_Set c k v st =
     (case bucket c k of
        Panic p \<Rightarrow> (Panic p, st)
      | Done (Inl e) \<Rightarrow> (Done (Some e), st)
      | Done (Inr i) \<Rightarrow>
          (case cache_Set (Buckets c ! i) k v (st i) of
             (r, cs) \<Rightarrow> (Done r, st(i := cs))))"

definition sharded_Delete ::
  "('c, 'v) sharded_cache \<Rightarrow> key \<Rightarrow> (nat \<Rightarrow> 'c) \<Rightarrow> err option result \<times> (nat \<Rightarrow> 'c)" where
  "sharded_Delete c k st =
     (case bucket c k of
        Panic p \<Rightarrow> (Panic p, st)
      | Done (Inl e) \<Rightarrow> (Done (Some e), st)
      | Done (Inr i) \<Rightarrow>
          (case cache_Delete (Buckets c ! i) k (st i) of
             (r, cs) \<Rightarrow> (Done r, st(i := cs))))"

section \<open>Test doubles\<close>

text \<open>
  An in-memory cache and an in-memory database in the manner of the \<open>mockCache\<close> of the
  tests (a map from keys to values; \<open>Get\<close> of an absent key returns \<open>ErrCacheMiss\<close>),
  here with a script of failures: \<open>Set\<close> and \<open>Delete\<close> of the cache and every call of
  the database take the next entry of the script as their error, and succeed once the
  script is used up. \<open>Select\<close> of an absent key returns nil without error.
\<close>

definition remove_key :: "key \<Rightarrow> (key \<times> 'a) list \<Rightarrow> (key \<times> 'a) list" where
  "remove_key k m = filter (\<lambda>p. fst p \<noteq> k) m"

definition next_result :: "err option list \<Rightarrow> err option \<times> err option list" where
  "next_result sc = (case sc of [] \<Rightarrow> (None, []) | r # sc' \<Rightarrow> (r, sc'))"

type_synonym 'v mock_state = "(key \<times> 'v option) list \<times> err option list"

definition mock_Cache :: "('v mock_state, 'v) Cache" where
  "mock_Cache =
     \<lparr>cache_Get = (\<lambda>k st. case map_of (fst st) k of
                      Some v \<Rightarrow> ((v, None), st)
                    | None \<Rightarrow> ((None, Some ErrCacheMiss), st)),
      cache_Set = (\<lambda>k v st. case next_result (snd st) of
                      (Some e, sc) \<Rightarrow> (Some e, (fst st, sc))
                    | (None, sc) \<Rightarrow> (None, ((k, v) # remove_key k (fst st), sc))),
      cache_Delete = (\<lambda>k st. case next_result (snd st) of
                      (Some e, sc) \<Rightarrow> (Some e, (fst st, sc))
                    | (None, sc) \<Rightarrow> (None, (remove_key k (fst st), sc)))\<rparr>"

definition mock_Database :: "('v mock_state, 'v) Database" where
  "mock_Database =
     \<lparr>db_Select = (\<lambda>k st. case next_result (snd st) of
                      (Some e, sc) \<Rightarrow> ((None, Some e), (fst st, sc))
                    | (None, sc) \<Rightarrow>
                        (case map_of (fst st) k of
                           Some v \<Rightarrow> ((v, None), (fst st, sc))
                         | None \<Rightarrow> ((None, None), (fst st, sc)))),
      db_Upsert = (\<lambda>k v st. case next_result (snd st) of
                      (Some e, sc) \<Rightarrow> (Some e, (fst st, sc))
                    | (None, sc) \<Rightarrow> (None, ((k, v) # remove_key k (fst st), sc))),
      db_Delete = (\<lambda>k st. case next_result (snd st) of
                      (Some e, sc) \<Rightarrow> (Some e, (fst st, sc))
                    | (None, sc) \<Rightarrow> (None, (remove_key k (fst st), sc)))\<rparr>"

text \<open>
  A cache that reports a miss wrapped in context, as
  \<open>fmt.Errorf("lookup: %w", gouache.ErrCacheMiss)\<close> does.
\<close>

definition wrapping_Cache :: "('v mock_state, 'v) Cache" where
  "wrapping_Cache =
     mock_Cache\<lparr>cache_Get := (\<lambda>k st. case map_of (fst st) k of
                      Some v \<Rightarrow> ((v, None), st)
                    | None \<Rightarrow> ((None, Some (ErrWrap ''lookup'' ErrCacheMiss)), st))\<rparr>"

text \<open>The decorator over the two doubles with a given Gopher, and a state to start from.\<close>

definition mock_ddd ::
  "('v mock_state, 'v mock_state, 'v) Gopher_fn \<Rightarrow> ('v mock_state, 'v mock_state, 'v) cache" where
  "mock_ddd g = \<lparr>Options = \<lparr>Gopher = g\<rparr>, Cache = mock_Cache, Database = mock_Database\<rparr>"

definition mock_world ::
  "'v mock_state \<Rightarrow> 'v mock_state \<Rightarrow> ('v mock_state, 'v mock_state, 'v) world" where
  "mock_world cs ds = \<lparr>cache_state = cs, db_state = ds, goroutines = [], trace = []\<rparr>"

text \<open>A list of \<open>n\<close> in-memory buckets.\<close>

definition mock_buckets :: "nat \<Rightarrow> ('v mock_state, 'v) Cache list" where
  "mock_buckets n = replicate n mock_Cache"

text \<open>
  Hashes and factories for bucket resolution. \<open>fnv_New64a\<close> is \<open>fnv.New64a()\<close> of the
  standard library (FNV-1a on 64 bits, offset basis 14695981039346656037, prime
  1099511628211). \<open>wide_hash\<close> has a digest of sixteen bytes (the first sixteen bytes
  written, padded with zeros) and \<open>short_hash\<close> one of two bytes; neither has \<open>Sum32\<close> or
  \<open>Sum64\<close>. \<open>plain_hash4\<close> and \<open>plain_hash8\<close> report a size of four and of eight bytes
  and implement \<open>hash.Hash\<close> only. \<open>broken_hash\<close> fails every write.
\<close>

definition fnv64a :: "byte list \<Rightarrow> 64 word" where
  "fnv64a bs = foldl (\<lambda>h b. (h XOR ucast b) * 1099511628211) 14695981039346656037 bs"

definition be_bytes64 :: "64 word \<Rightarrow> byte list" where
  "be_bytes64 w = map (\<lambda>i. ucast (drop_bit (8 * (7 - i)) w)) [0..<8]"

definition fnv_New64a :: hash_Hash where
  "fnv_New64a =
     \<lparr>written = [],
      hash_Write = (\<lambda>ws p. None),
      hash_Size = (\<lambda>ws. 8),
      hash_Sum = (\<lambda>ws b. b @ be_bytes64 (fnv64a ws)),
      hash_Sum32 = None,
      hash_Sum64 = Some fnv64a\<rparr>"

definition wide_hash :: hash_Hash where
  "wide_hash =
     \<lparr>written = [],
      hash_Write = (\<lambda>ws p. None),
      hash_Size = (\<lambda>ws. 16),
      hash_Sum = (\<lambda>ws b. b @ take 16 (ws @ replicate 16 0)),
      hash_Sum32 = None,
      hash_Sum64 = None\<rparr>"

definition short_hash :: hash_Hash where
  "short_hash =
     \<lparr>written = [],
      hash_Write = (\<lambda>ws p. None),
      hash_Size = (\<lambda>ws. 2),
      hash_Sum = (\<lambda>ws b. b @ take 2 (ws @ replicate 2 0)),
      hash_Sum32 = None,
      hash_Sum64 = None\<rparr>"

definition plain_hash4 :: hash_Hash where
  "plain_hash4 = fnv_New32a\<lparr>hash_Sum32 := None\<rparr>"

definition plain_hash8 :: hash_Hash where
  "plain_hash8 = fnv_New64a\<lparr>hash_Sum64 := None\<rparr>"

definition broken_hash :: hash_Hash where
  "broken_hash = fnv_New32a\<lparr>hash_Write := (\<lambda>ws p. Some (ErrOther ''write failed''))\<rparr>"

text \<open>A factory that returns the given hash for every key, and one that fails.\<close>

definition factory_of :: "hash_Hash \<Rightarrow> HashFactory_fn" where
  "factory_of h k = (Some h, None)"

definition failing_factory :: HashFactory_fn where
  "failing_factory k = (None, Some (ErrOther ''no hash''))"

text \<open>The sharded cache over \<open>n\<close> in-memory buckets with a given factory.\<close>

definition mock_sharded :: "HashFactory_fn \<Rightarrow> nat \<Rightarrow> ('v mock_state, 'v) sharded_cache" where
  "mock_sharded hf n =
     \<lparr>sharded_Options = newOptions [WithHashFactory (Some hf)], Buckets = mock_buckets n\<rparr>"

section \<open>Properties of the delay double delete decorator\<close>

lemmas mock_defs =
  mock_ddd_def mock_world_def mock_Cache_def mock_Database_def remove_key_def next_result_def

lemmas call_defs =
  call_cache_Get_def call_cache_Set_def call_cache_Delete_def
  call_db_Select_def call_db_Upsert_def call_db_Delete_def call_ErrorHandler_def
  call_Gopher_def

text \<open>
  Claim C1. For every key and value, \<open>Set\<close> does three things in this order. It deletes
  the key from the cache first; if that fails it returns the error, and the only call made
  is the cache deletion. It then upserts the value into the database; if that fails it
  returns the error, and the calls made are the cache deletion followed by the upsert.
  It then hands the delayed deletion to the Gopher, in the state reached by exactly those
  two calls in that order, and returns what the Gopher returns: its error when it refuses,
  nil otherwise.
\<close>

theorem ddd_Set_three_steps:
  "(\<forall>e cs. cache_Delete (Cache c) k (cache_state s) = (Some e, cs) \<longrightarrow>
      ddd_Set c k v s = (Some e, s\<lparr>cache_state := cs, trace := trace s @ [EvCacheDelete k]\<rparr>)) \<and>
   (\<forall>cs e ds. cache_Delete (Cache c) k (cache_state s) = (None, cs) \<and>
        db_Upsert (Database c) k v (db_state s) = (Some e, ds) \<longrightarrow>
      ddd_Set c k v s =
        (Some e, s\<lparr>cache_state := cs, db_state := ds,
                   trace := trace s @ [EvCacheDelete k, EvDbUpsert k v]\<rparr>)) \<and>
   (\<forall>cs ds. cache_Delete (Cache c) k (cache_state s) = (None, cs) \<and>
        db_Upsert (Database c) k v (db_state s) = (None, ds) \<longrightarrow>
      ddd_Set c k v s =
        Gopher (Options c) (SecondDelete k)
          (s\<lparr>cache_state := cs, db_state := ds,
             trace := trace s @
               [EvCacheDelete k, EvDbUpsert k v, EvGopher (SecondDelete k)]\<rparr>))"
  by (simp add: ddd_Set_def call_cache_Delete_def call_db_Upsert_def call_Gopher_def)

theorem ddd_Set_three_steps_witness:
  "ddd_Set (mock_ddd default_Gopher) ''k'' (Some ''new'')
      (mock_world ([(''k'', Some ''old'')], [Some (ErrOther ''cache down'')]) ([(''k'', Some ''old'')], []))
    = (Some (ErrOther ''cache down''),
       \<lparr>cache_state = ([(''k'', Some ''old'')], []), db_state = ([(''k'', Some ''old'')], []),
        goroutines = [], trace = [EvCacheDelete ''k'']\<rparr>) \<and>
   ddd_Set (mock_ddd default_Gopher) ''k'' (Some ''new'')
      (mock_world ([(''k'', Some ''old'')], []) ([(''k'', Some ''old'')], [Some (ErrOther ''db down'')]))
    = (Some (ErrOther ''db down''),
       \<lparr>cache_state = ([], []), db_state = ([(''k'', Some ''old'')], []),
        goroutines = [], trace = [EvCacheDelete ''k'', EvDbUpsert ''k'' (Some ''new'')]\<rparr>) \<and>
   ddd_Set (mock_ddd (rejecting_Gopher (ErrOther ''busy''))) ''k'' (Some ''new'')
      (mock_world ([(''k'', Some ''old'')], []) ([(''k'', Some ''old'')], []))
    = (Some (ErrOther ''busy''),
       \<lparr>cache_state = ([], []), db_state = ([(''k'', Some ''new'')], []),
        goroutines = [],
        trace = [EvCacheDelete ''k'', EvDbUpsert ''k'' (Some ''new''),
                 EvGopher (SecondDelete ''k'')]\<rparr>) \<and>
   ddd_Set (mock_ddd default_Gopher) ''k'' (Some ''new'')
      (mock_world ([(''k'', Some ''old'')], []) ([(''k'', Some ''old'')], []))
    = (None,
       \<lparr>cache_state = ([], []), db_state = ([(''k'', Some ''new'')], []),
        goroutines = [SecondDelete ''k''],
        trace = [EvCacheDelete ''k'', EvDbUpsert ''k'' (Some ''new''),
                 EvGopher (SecondDelete ''k'')]\<rparr>)"
  using ddd_Set_three_steps [of "mock_ddd default_Gopher" "''k''"
          "mock_world ([(''k'', Some ''old'')], [Some (ErrOther ''cache down'')]) ([(''k'', Some ''old'')], [])"
          "Some ''new''"]
        ddd_Set_three_steps [of "mock_ddd default_Gopher" "''k''"
          "mock_world ([(''k'', Some ''old'')], []) ([(''k'', Some ''old'')], [Some (ErrOther ''db down'')])"
          "Some ''new''"]
        ddd_Set_three_steps [of "mock_ddd (rejecting_Gopher (ErrOther ''busy''))" "''k''"
          "mock_world ([(''k'', Some ''old'')], []) ([(''k'', Some ''old'')], [])" "Some ''new''"]
        ddd_Set_three_steps [of "mock_ddd default_Gopher" "''k''"
          "mock_world ([(''k'', Some ''old'')], []) ([(''k'', Some ''old'')], [])" "Some ''new''"]
  by (simp add: mock_defs default_Gopher_def rejecting_Gopher_def)

text \<open>
  Claim C2. \<open>Get\<close> asks the cache first. When the error of the cache is not a cache miss
  (\<open>errors.Is(err, ErrCacheMiss)\<close> is false, which includes a nil error), \<open>Get\<close> returns
  the value and the error of the cache as they are, after that one call. On a cache miss
  it asks the database: on an error of the database it returns nil and that error; on
  success it sets the value of the database in the cache and returns that value with the
  error of this \<open>Set\<close>, whatever it is.
\<close>

theorem ddd_Get_read_through:
  "(\<forall>val er cs. cache_Get (Cache c) k (cache_state s) = ((val, er), cs) \<and> \<not> is_cache_miss er \<longrightarrow>
      ddd_Get c k s = ((val, er), s\<lparr>cache_state := cs, trace := trace s @ [EvCacheGet k]\<rparr>)) \<and>
   (\<forall>val er cs dval e ds. cache_Get (Cache c) k (cache_state s) = ((val, er), cs) \<and>
        is_cache_miss er \<and> db_Select (Database c) k (db_state s) = ((dval, Some e), ds) \<longrightarrow>
      ddd_Get c k s =
        ((None, Some e), s\<lparr>cache_state := cs, db_state := ds,
                           trace := trace s @ [EvCacheGet k, EvDbSelect k]\<rparr>)) \<and>
   (\<forall>val er cs dval ds r cs'. cache_Get (Cache c) k (cache_state s) = ((val, er), cs) \<and>
        is_cache_miss er \<and> db_Select (Database c) k (db_state s) = ((dval, None), ds) \<and>
        cache_Set (Cache c) k dval cs = (r, cs') \<longrightarrow>
      ddd_Get c k s =
        ((dval, r), s\<lparr>cache_state := cs', db_state := ds,
                       trace := trace s @ [EvCacheGet k, EvDbSelect k, EvCacheSet k dval]\<rparr>))"
  by (simp add: ddd_Get_def call_cache_Get_def call_db_Select_def call_cache_Set_def)

theorem ddd_Get_read_through_witness:
  "ddd_Get (mock_ddd default_Gopher) ''k''
      (mock_world ([(''k'', Some ''cached'')], []) ([(''k'', Some ''stored'')], []))
    = ((Some ''cached'', None),
       \<lparr>cache_state = ([(''k'', Some ''cached'')], []), db_state = ([(''k'', Some ''stored'')], []),
        goroutines = [], trace = [EvCacheGet ''k'']\<rparr>) \<and>
   ddd_Get (mock_ddd default_Gopher) ''k''
      (mock_world ([], []) ([(''k'', Some ''stored'')], [Some (ErrOther ''db down'')]))
    = ((None, Some (ErrOther ''db down'')),
       \<lparr>cache_state = ([], []), db_state = ([(''k'', Some ''stored'')], []),
        goroutines = [], trace = [EvCacheGet ''k'', EvDbSelect ''k'']\<rparr>) \<and>
   ddd_Get (mock_ddd default_Gopher) ''k''
      (mock_world ([], []) ([(''k'', Some ''stored'')], []))
    = ((Some ''stored'', None),
       \<lparr>cache_state = ([(''k'', Some ''stored'')], []), db_state = ([(''k'', Some ''stored'')], []),
        goroutines = [],
        trace = [EvCacheGet ''k'', EvDbSelect ''k'', EvCacheSet ''k'' (Some ''stored'')]\<rparr>) \<and>
   ddd_Get (mock_ddd default_Gopher) ''k''
      (mock_world ([], [Some (ErrOther ''cache full'')]) ([(''k'', Some ''stored'')], []))
    = ((Some ''stored'', Some (ErrOther ''cache full'')),
       \<lparr>cache_state = ([], []), db_state = ([(''k'', Some ''stored'')], []),
        goroutines = [],
        trace = [EvCacheGet ''k'', EvDbSelect ''k'', EvCacheSet ''k'' (Some ''stored'')]\<rparr>) \<and>
   ddd_Get ((mock_ddd default_Gopher)\<lparr>Cache := wrapping_Cache\<rparr>) ''k''
      (mock_world ([], []) ([(''k'', Some ''stored'')], []))
    = ((Some ''stored'', None),
       \<lparr>cache_state = ([(''k'', Some ''stored'')], []), db_state = ([(''k'', Some ''stored'')], []),
        goroutines = [],
        trace = [EvCacheGet ''k'', EvDbSelect ''k'', EvCacheSet ''k'' (Some ''stored'')]\<rparr>)"
  using ddd_Get_read_through [of "mock_ddd default_Gopher" "''k''"
          "mock_world ([(''k'', Some ''cached'')], []) ([(''k'', Some ''stored'')], [])"]
        ddd_Get_read_through [of "mock_ddd default_Gopher" "''k''"
          "mock_world ([], []) ([(''k'', Some ''stored'')], [Some (ErrOther ''db down'')])"]
        ddd_Get_read_through [of "mock_ddd default_Gopher" "''k''"
          "mock_world ([], []) ([(''k'', Some ''stored'')], [])"]
        ddd_Get_read_through [of "mock_ddd default_Gopher" "''k''"
          "mock_world ([], [Some (ErrOther ''cache full'')]) ([(''k'', Some ''stored'')], [])"]
        ddd_Get_read_through [of "(mock_ddd default_Gopher)\<lparr>Cache := wrapping_Cache\<rparr>" "''k''"
          "mock_world ([], []) ([(''k'', Some ''stored'')], [])"]
  by (simp add: mock_defs wrapping_Cache_def is_cache_miss_def)

text \<open>
  Claim C8. When the first cache deletion of \<open>Set\<close> or \<open>Delete\<close> fails, the call returns
  that error and does nothing else: the only call made is the cache deletion, the state of
  the database is what it was before the call, and no delayed deletion is started.
\<close>

theorem ddd_first_delete_failure_stops:
  assumes "cache_Delete (Cache c) k (cache_state s) = (Some e, cs)"
  shows "ddd_Set c k v s = (Some e, s\<lparr>cache_state := cs, trace := trace s @ [EvCacheDelete k]\<rparr>) \<and>
         ddd_Delete c k s = (Some e, s\<lparr>cache_state := cs, trace := trace s @ [EvCacheDelete k]\<rparr>) \<and>
         db_state (snd (ddd_Set c k v s)) = db_state s \<and>
         db_state (snd (ddd_Delete c k s)) = db_state s \<and>
         goroutines (snd (ddd_Set c k v s)) = goroutines s \<and>
         goroutines (snd (ddd_Delete c k s)) = goroutines s"
  using assms by (simp add: ddd_Set_def ddd_Delete_def call_cache_Delete_def)

theorem ddd_first_delete_failure_stops_witness:
  "ddd_Set (mock_ddd (inline_Gopher mock_Cache)) ''k'' (Some ''new'')
      (mock_world ([(''k'', Some ''old'')], [Some (ErrOther ''cache down'')]) ([(''k'', Some ''old'')], []))
    = (Some (ErrOther ''cache down''),
       \<lparr>cache_state = ([(''k'', Some ''old'')], []), db_state = ([(''k'', Some ''old'')], []),
        goroutines = [], trace = [EvCacheDelete ''k'']\<rparr>) \<and>
   ddd_Delete (mock_ddd (inline_Gopher mock_Cache)) ''k''
      (mock_world ([(''k'', Some ''old'')], [Some (ErrOther ''cache down'')]) ([(''k'', Some ''old'')], []))
    = (Some (ErrOther ''cache down''),
       \<lparr>cache_state = ([(''k'', Some ''old'')], []), db_state = ([(''k'', Some ''old'')], []),
        goroutines = [], trace = [EvCacheDelete ''k'']\<rparr>)"
  using ddd_first_delete_failure_stops [of "mock_ddd (inline_Gopher mock_Cache)" "''k''"
          "mock_world ([(''k'', Some ''old'')], [Some (ErrOther ''cache down'')]) ([(''k'', Some ''old'')], [])"
          "ErrOther ''cache down''" "([(''k'', Some ''old'')], [])" "Some ''new''"]
  by (simp add: mock_defs)

text \<open>
  Claim C9. When the cache deletion and the upsert of \<open>Set\<close> succeed and the Gopher
  refuses the closure (it returns an error and leaves the cache and the database alone),
  \<open>Set\<close> returns that error, and nothing is undone: the database is in the state the
  upsert left, the cache in the state the deletion left, and the only call that follows
  the upsert is the call of the Gopher.
  An error from \<open>Set\<close> therefore does not mean that nothing changed.
\<close>

theorem ddd_Set_rejected_keeps_upsert:
  assumes "cache_Delete (Cache c) k (cache_state s) = (None, cs)"
    and "db_Upsert (Database c) k v (db_state s) = (None, ds)"
    and "Gopher (Options c) (SecondDelete k)
           (s\<lparr>cache_state := cs, db_state := ds,
              trace := trace s @ [EvCacheDelete k, EvDbUpsert k v, EvGopher (SecondDelete k)]\<rparr>) = (Some e, s')"
    and "cache_state s' = cs \<and> db_state s' = ds \<and>
         trace s' = trace s @ [EvCacheDelete k, EvDbUpsert k v, EvGopher (SecondDelete k)]"
  shows "fst (ddd_Set c k v s) = Some e \<and>
         db_state (snd (ddd_Set c k v s)) = ds \<and>
         cache_state (snd (ddd_Set c k v s)) = cs \<and>
         trace (snd (ddd_Set c k v s)) = trace s @ [EvCacheDelete k, EvDbUpsert k v, EvGopher (SecondDelete k)]"
  using assms
  by (simp add: ddd_Set_def call_cache_Delete_def call_db_Upsert_def call_Gopher_def)

theorem ddd_Set_rejected_keeps_upsert_witness:
  "fst (ddd_Set (mock_ddd (rejecting_Gopher (ErrOther ''busy''))) ''k'' (Some ''new'')
      (mock_world ([(''k'', Some ''old'')], []) ([(''k'', Some ''old'')], []))) = Some (ErrOther ''busy'') \<and>
   db_state (snd (ddd_Set (mock_ddd (rejecting_Gopher (ErrOther ''busy''))) ''k'' (Some ''new'')
      (mock_world ([(''k'', Some ''old'')], []) ([(''k'', Some ''old'')], [])))) = ([(''k'', Some ''new'')], []) \<and>
   cache_state (snd (ddd_Set (mock_ddd (rejecting_Gopher (ErrOther ''busy''))) ''k'' (Some ''new'')
      (mock_world ([(''k'', Some ''old'')], []) ([(''k'', Some ''old'')], [])))) = ([], []) \<and>
   db_state (mock_world ([(''k'', Some ''old'')], []) ([(''k'', Some ''old'')], [])
      :: (string mock_state, string mock_state, string) world) = ([(''k'', Some ''old'')], [])"
  using ddd_Set_rejected_keeps_upsert [of "mock_ddd (rejecting_Gopher (ErrOther ''busy''))" "''k''"
          "mock_world ([(''k'', Some ''old'')], []) ([(''k'', Some ''old'')], [])"
          "([], [])" "Some ''new''" "([(''k'', Some ''new'')], [])" "ErrOther ''busy''"
          "\<lparr>cache_state = ([], []), db_state = ([(''k'', Some ''new'')], []), goroutines = [],
            trace = [EvCacheDelete ''k'', EvDbUpsert ''k'' (Some ''new''), EvGopher (SecondDelete ''k'')]\<rparr>"]
  by (simp add: mock_defs rejecting_Gopher_def)

text \<open>
  Claim C7, as stated, fails: with an in-memory cache and an in-memory database that
  both hold the key, \<open>Delete\<close> succeeds, and the \<open>Get\<close> that follows misses the cache,
  reads the database, which answers without error, and returns nil with a nil error, not
  \<open>ErrCacheMiss\<close>.
\<close>

theorem ddd_Delete_then_Get_counterexample:
  "fst (ddd_Delete (mock_ddd default_Gopher) ''k''
          (mock_world ([(''k'', Some ''old'')], []) ([(''k'', Some ''old'')], []))) = None \<and>
   fst (ddd_Get (mock_ddd default_Gopher) ''k''
          (snd (ddd_Delete (mock_ddd default_Gopher) ''k''
                  (mock_world ([(''k'', Some ''old'')], []) ([(''k'', Some ''old'')], [])))))
     = (None, None) \<and>
   \<not> is_cache_miss (snd (fst (ddd_Get (mock_ddd default_Gopher) ''k''
          (snd (ddd_Delete (mock_ddd default_Gopher) ''k''
                  (mock_world ([(''k'', Some ''old'')], []) ([(''k'', Some ''old'')], [])))))))"
  by (simp add: ddd_Get_def ddd_Delete_def call_defs mock_defs default_Gopher_def is_cache_miss_def)

text \<open>
  Claim C7, amended. After a successful \<open>Delete\<close>, a \<open>Get\<close> of the same key that misses
  the cache reads through to the database: when \<open>Select\<close> and the repopulating \<open>Set\<close>
  succeed, \<open>Get\<close> returns the value of \<open>Select\<close> with a nil error, which is not a cache
  miss.
\<close>

theorem ddd_Delete_then_Get_reads_database:
  assumes "ddd_Delete c k s = (None, s1)"
    and "cache_Get (Cache c) k (cache_state s1) = ((val, er), cs)"
    and "is_cache_miss er"
    and "db_Select (Database c) k (db_state s1) = ((dval, None), ds)"
    and "cache_Set (Cache c) k dval cs = (None, cs')"
  shows "fst (ddd_Get c k s1) = (dval, None) \<and> \<not> is_cache_miss (snd (fst (ddd_Get c k s1)))"
  using assms
  by (simp add: ddd_Get_def call_cache_Get_def call_db_Select_def call_cache_Set_def is_cache_miss_def)

theorem ddd_Delete_then_Get_reads_database_witness:
  "ddd_Delete (mock_ddd default_Gopher) ''k''
      (mock_world ([(''k'', Some ''old'')], []) ([(''k'', Some ''old'')], []))
    = (None, \<lparr>cache_state = ([], []), db_state = ([], []), goroutines = [SecondDelete ''k''],
              trace = [EvCacheDelete ''k'', EvDbDelete ''k'', EvGopher (SecondDelete ''k'')]\<rparr>) \<and>
   fst (ddd_Get (mock_ddd default_Gopher) ''k''
      \<lparr>cache_state = ([], []), db_state = ([], []), goroutines = [SecondDelete ''k''],
       trace = [EvCacheDelete ''k'', EvDbDelete ''k'', EvGopher (SecondDelete ''k'') :: string event]\<rparr>) = (None, None)"
proof -
  let ?c = "mock_ddd default_Gopher :: (string mock_state, string mock_state, string) cache"
  let ?s1 = "\<lparr>cache_state = ([], []), db_state = ([], []), goroutines = [SecondDelete ''k''],
              trace = [EvCacheDelete ''k'', EvDbDelete ''k'', EvGopher (SecondDelete ''k'') :: string event]\<rparr>
             :: (string mock_state, string mock_state, string) world"
  have d: "ddd_Delete ?c ''k'' (mock_world ([(''k'', Some ''old'')], []) ([(''k'', Some ''old'')], []))
             = (None, ?s1)"
    by (simp add: ddd_Delete_def call_defs mock_defs default_Gopher_def)
  have g: "cache_Get (Cache ?c) ''k'' (cache_state ?s1) = ((None, Some ErrCacheMiss), ([], []))"
    by (simp add: mock_defs)
  have m: "is_cache_miss (Some ErrCacheMiss)"
    by (simp add: is_cache_miss_def)
  have q: "db_Select (Database ?c) ''k'' (db_state ?s1) = ((None, None), ([], []))"
    by (simp add: mock_defs)
  have r: "cache_Set (Cache ?c) ''k'' None ([], []) = (None, ([(''k'', None)], []))"
    by (simp add: mock_defs)
  from ddd_Delete_then_Get_reads_database [OF d g m q r] d show ?thesis
    by simp
qed

text \<open>
  Claim C3. The closure of the delayed deletion has no result: when its cache deletion
  fails, it calls the error handler once with the error and does nothing else, and when
  the deletion succeeds it does not call the handler. With the default Gopher (the closure
  is started and runs later) and with a Gopher that runs the closure before returning,
  \<open>Set\<close> and \<open>Delete\<close> return nil once their first deletion and their database call have
  succeeded, whether the second deletion fails or not; when it fails, the trace holds the
  second deletion followed by exactly one call of the error handler.
\<close>

theorem ddd_second_delete_failure_isolated:
  assumes first: "cache_Delete (Cache c) k (cache_state s) = (None, cs)"
    and gopher: "Gopher (Options c) = default_Gopher \<or> Gopher (Options c) = inline_Gopher (Cache c)"
  shows
    "(\<forall>s' e cs'. cache_Delete (Cache c) k (cache_state s') = (Some e, cs') \<longrightarrow>
        run_task (Cache c) (SecondDelete k) s' =
          s'\<lparr>cache_state := cs', trace := trace s' @ [EvCacheDelete k, EvErrorHandler e]\<rparr>) \<and>
     (\<forall>s' cs'. cache_Delete (Cache c) k (cache_state s') = (None, cs') \<longrightarrow>
        run_task (Cache c) (SecondDelete k) s' =
          s'\<lparr>cache_state := cs', trace := trace s' @ [EvCacheDelete k]\<rparr>) \<and>
     (\<forall>ds. db_Upsert (Database c) k v (db_state s) = (None, ds) \<longrightarrow>
        fst (ddd_Set c k v s) = None \<and>
        (\<forall>e cs'. cache_Delete (Cache c) k cs = (Some e, cs') \<longrightarrow>
           (Gopher (Options c) = inline_Gopher (Cache c) \<longrightarrow>
              trace (snd (ddd_Set c k v s)) =
                trace s @ [EvCacheDelete k, EvDbUpsert k v, EvGopher (SecondDelete k),
                           EvCacheDelete k, EvErrorHandler e]) \<and>
           (Gopher (Options c) = default_Gopher \<longrightarrow>
              goroutines (snd (ddd_Set c k v s)) = goroutines s @ [SecondDelete k] \<and>
              trace (snd (ddd_Set c k v s)) = trace s @ [EvCacheDelete k, EvDbUpsert k v, EvGopher (SecondDelete k)] \<and>
              trace (run_goroutine (Cache c) (length (goroutines s)) (snd (ddd_Set c k v s))) =
                trace s @ [EvCacheDelete k, EvDbUpsert k v, EvGopher (SecondDelete k),
                           EvCacheDelete k, EvErrorHandler e] \<and>
              goroutines (run_goroutine (Cache c) (length (goroutines s)) (snd (ddd_Set c k v s))) =
                goroutines s))) \<and>
     (\<forall>ds. db_Delete (Database c) k (db_state s) = (None, ds) \<longrightarrow>
        fst (ddd_Delete c k s) = None \<and>
        (\<forall>e cs'. cache_Delete (Cache c) k cs = (Some e, cs') \<longrightarrow>
           (Gopher (Options c) = inline_Gopher (Cache c) \<longrightarrow>
              trace (snd (ddd_Delete c k s)) =
                trace s @ [EvCacheDelete k, EvDbDelete k, EvGopher (SecondDelete k),
                           EvCacheDelete k, EvErrorHandler e]) \<and>
           (Gopher (Options c) = default_Gopher \<longrightarrow>
              goroutines (snd (ddd_Delete c k s)) = goroutines s @ [SecondDelete k] \<and>
              trace (snd (ddd_Delete c k s)) = trace s @ [EvCacheDelete k, EvDbDelete k, EvGopher (SecondDelete k)] \<and>
              trace (run_goroutine (Cache c) (length (goroutines s)) (snd (ddd_Delete c k s))) =
                trace s @ [EvCacheDelete k, EvDbDelete k, EvGopher (SecondDelete k),
                           EvCacheDelete k, EvErrorHandler e] \<and>
              goroutines (run_goroutine (Cache c) (length (goroutines s)) (snd (ddd_Delete c k s))) =
                goroutines s)))"
proof -
  have task: "(\<forall>s' e cs'. cache_Delete (Cache c) k (cache_state s') = (Some e, cs') \<longrightarrow>
        run_task (Cache c) (SecondDelete k) s' =
          s'\<lparr>cache_state := cs', trace := trace s' @ [EvCacheDelete k, EvErrorHandler e]\<rparr>) \<and>
     (\<forall>s' cs'. cache_Delete (Cache c) k (cache_state s') = (None, cs') \<longrightarrow>
        run_task (Cache c) (SecondDelete k) s' =
          s'\<lparr>cache_state := cs', trace := trace s' @ [EvCacheDelete k]\<rparr>)"
    by (simp add: run_task_def call_cache_Delete_def call_ErrorHandler_def)
  have set_ret: "fst (ddd_Set c k v s) = None"
    if "db_Upsert (Database c) k v (db_state s) = (None, ds)" for ds
    using first gopher that
    by (auto simp add: ddd_Set_def call_defs default_Gopher_def inline_Gopher_def)
  have del_ret: "fst (ddd_Delete c k s) = None"
    if "db_Delete (Database c) k (db_state s) = (None, ds)" for ds
    using first gopher that
    by (auto simp add: ddd_Delete_def call_defs default_Gopher_def inline_Gopher_def)
  have set_inl: "trace (snd (ddd_Set c k v s)) =
             trace s @ [EvCacheDelete k, EvDbUpsert k v, EvGopher (SecondDelete k),
                           EvCacheDelete k, EvErrorHandler e]"
    if "db_Upsert (Database c) k v (db_state s) = (None, ds)"
      "cache_Delete (Cache c) k cs = (Some e, cs')" "Gopher (Options c) = inline_Gopher (Cache c)"
    for ds e cs'
    using first that by (simp add: ddd_Set_def call_defs inline_Gopher_def run_task_def)
  have del_inl: "trace (snd (ddd_Delete c k s)) =
             trace s @ [EvCacheDelete k, EvDbDelete k, EvGopher (SecondDelete k),
                           EvCacheDelete k, EvErrorHandler e]"
    if "db_Delete (Database c) k (db_state s) = (None, ds)"
      "cache_Delete (Cache c) k cs = (Some e, cs')" "Gopher (Options c) = inline_Gopher (Cache c)"
    for ds e cs'
    using first that by (simp add: ddd_Delete_def call_defs inline_Gopher_def run_task_def)
  have set_det: "goroutines (snd (ddd_Set c k v s)) = goroutines s @ [SecondDelete k] \<and>
           trace (snd (ddd_Set c k v s)) = trace s @ [EvCacheDelete k, EvDbUpsert k v, EvGopher (SecondDelete k)] \<and>
           trace (run_goroutine (Cache c) (length (goroutines s)) (snd (ddd_Set c k v s))) =
             trace s @ [EvCacheDelete k, EvDbUpsert k v, EvGopher (SecondDelete k),
                        EvCacheDelete k, EvErrorHandler e] \<and>
           goroutines (run_goroutine (Cache c) (length (goroutines s)) (snd (ddd_Set c k v s))) =
             goroutines s"
    if "db_Upsert (Database c) k v (db_state s) = (None, ds)"
      "cache_Delete (Cache c) k cs = (Some e, cs')" "Gopher (Options c) = default_Gopher"
    for ds e cs'
    using first that
    by (simp add: ddd_Set_def call_defs default_Gopher_def run_task_def run_goroutine_def nth_append)
  have del_det: "goroutines (snd (ddd_Delete c k s)) = goroutines s @ [SecondDelete k] \<and>
           trace (snd (ddd_Delete c k s)) = trace s @ [EvCacheDelete k, EvDbDelete k, EvGopher (SecondDelete k)] \<and>
           trace (run_goroutine (Cache c) (length (goroutines s)) (snd (ddd_Delete c k s))) =
             trace s @ [EvCacheDelete k, EvDbDelete k, EvGopher (SecondDelete k),
                        EvCacheDelete k, EvErrorHandler e] \<and>
           goroutines (run_goroutine (Cache c) (length (goroutines s)) (snd (ddd_Delete c k s))) =
             goroutines s"
    if "db_Delete (Database c) k (db_state s) = (None, ds)"
      "cache_Delete (Cache c) k cs = (Some e, cs')" "Gopher (Options c) = default_Gopher"
    for ds e cs'
    using first that
    by (simp add: ddd_Delete_def call_defs default_Gopher_def run_task_def run_goroutine_def nth_append)
  from task set_ret del_ret set_inl del_inl set_det del_det show ?thesis
    by (intro conjI allI impI) blast+
qed

theorem ddd_second_delete_failure_isolated_witness:
  "fst (ddd_Set (mock_ddd (inline_Gopher mock_Cache)) ''k'' (Some ''new'')
      (mock_world ([(''k'', Some ''old'')], [None, Some (ErrOther ''cache down'')]) ([], []))) = None \<and>
   trace (snd (ddd_Set (mock_ddd (inline_Gopher mock_Cache)) ''k'' (Some ''new'')
      (mock_world ([(''k'', Some ''old'')], [None, Some (ErrOther ''cache down'')]) ([], [])))) =
     [EvCacheDelete ''k'', EvDbUpsert ''k'' (Some ''new''), EvGopher (SecondDelete ''k''), EvCacheDelete ''k'',
      EvErrorHandler (ErrOther ''cache down'')] \<and>
   fst (ddd_Delete (mock_ddd default_Gopher) ''k''
      (mock_world ([(''k'', Some ''old'')], [None, Some (ErrOther ''cache down'')]) ([], []))) = None \<and>
   trace (run_goroutine mock_Cache 0 (snd (ddd_Delete (mock_ddd default_Gopher) ''k''
      (mock_world ([(''k'', Some ''old'')], [None, Some (ErrOther ''cache down'')]) ([], []))))) =
     [EvCacheDelete ''k'', EvDbDelete ''k'', EvGopher (SecondDelete ''k''), EvCacheDelete ''k'',
      EvErrorHandler (ErrOther ''cache down'')] \<and>
   run_task mock_Cache (SecondDelete ''k'')
      (mock_world ([(''k'', Some ''old'')], [None, Some (ErrOther ''cache down'')]) ([], [])
         :: (string mock_state, string mock_state, string) world) =
     \<lparr>cache_state = ([], [Some (ErrOther ''cache down'')]), db_state = ([], []),
      goroutines = [], trace = [EvCacheDelete ''k'']\<rparr>"
proof -
  let ?e = "ErrOther ''cache down''"
  let ?w = "mock_world ([(''k'', Some ''old'')], [None, Some ?e]) ([], [])
              :: (string mock_state, string mock_state, string) world"
  let ?ci = "mock_ddd (inline_Gopher mock_Cache) :: (string mock_state, string mock_state, string) cache"
  let ?cd = "mock_ddd default_Gopher :: (string mock_state, string mock_state, string) cache"
  have first: "cache_Delete (Cache c) ''k'' (cache_state ?w) = (None, ([], [Some ?e]))"
    if "Cache c = mock_Cache" for c :: "(string mock_state, string mock_state, string) cache"
    using that by (simp add: mock_defs)
  have upsert: "db_Upsert (Database ?ci) ''k'' (Some ''new'') (db_state ?w) = (None, ([(''k'', Some ''new'')], []))"
    by (simp add: mock_defs)
  have delete: "db_Delete (Database ?cd) ''k'' (db_state ?w) = (None, ([], []))"
    by (simp add: mock_defs)
  have second: "cache_Delete (Cache c) ''k'' ([], [Some ?e]) = (Some ?e, ([], []))"
    if "Cache c = mock_Cache" for c :: "(string mock_state, string mock_state, string) cache"
    using that by (simp add: mock_defs)
  have ci: "Cache ?ci = mock_Cache" "Gopher (Options ?ci) = inline_Gopher (Cache ?ci)"
    by (simp_all add: mock_ddd_def)
  have cd: "Cache ?cd = mock_Cache" "Gopher (Options ?cd) = default_Gopher"
    by (simp_all add: mock_ddd_def)
  have tr: "trace ?w = []" "goroutines ?w = []" by (simp_all add: mock_world_def)
  note Ti = ddd_second_delete_failure_isolated
              [OF first [OF ci(1)] disjI2 [OF ci(2)], of "Some ''new''"]
  note Td = ddd_second_delete_failure_isolated
              [OF first [OF cd(1)] disjI1 [OF cd(2)], of "Some ''new''"]
  from Ti upsert second [OF ci(1)] ci(2) have
    "fst (ddd_Set ?ci ''k'' (Some ''new'') ?w) = None"
    "trace (snd (ddd_Set ?ci ''k'' (Some ''new'') ?w)) =
       trace ?w @ [EvCacheDelete ''k'', EvDbUpsert ''k'' (Some ''new''), EvGopher (SecondDelete ''k''), EvCacheDelete ''k'', EvErrorHandler ?e]"
    by blast+
  moreover from Td delete second [OF cd(1)] cd(2) have
    "fst (ddd_Delete ?cd ''k'' ?w) = None"
    "trace (run_goroutine (Cache ?cd) (length (goroutines ?w)) (snd (ddd_Delete ?cd ''k'' ?w))) =
       trace ?w @ [EvCacheDelete ''k'', EvDbDelete ''k'', EvGopher (SecondDelete ''k''), EvCacheDelete ''k'', EvErrorHandler ?e]"
    by blast+
  moreover from Td first [OF cd(1)] have
    "run_task (Cache ?cd) (SecondDelete ''k'') ?w =
       ?w\<lparr>cache_state := ([], [Some ?e]), trace := trace ?w @ [EvCacheDelete ''k'']\<rparr>"
    by blast
  ultimately show ?thesis
    by (simp add: tr cd(1)) (simp add: mock_world_def)
qed

section \<open>Properties of the sharded cache\<close>

text \<open>
  Claim C6. \<open>New\<close> with an empty list of buckets panics, so that no cache is returned;
  with a non-empty list it returns the cache over exactly these buckets, and every cache
  that \<open>New\<close> returns has at least one bucket.
\<close>

theorem sharded_New_empty_panics:
  fixes buckets :: "('c, 'v) Cache list"
  shows
  "sharded_New ([] :: ('c, 'v) Cache list) opts = Panic ''gouache: buckets is empty'' \<and>
   (buckets \<noteq> [] \<longrightarrow>
      sharded_New buckets opts = Done \<lparr>sharded_Options = newOptions opts, Buckets = buckets\<rparr>) \<and>
   (\<forall>c. sharded_New buckets opts = Done c \<longrightarrow> Buckets c = buckets \<and> Buckets c \<noteq> [])"
  by (auto simp add: sharded_New_def)

theorem sharded_New_empty_panics_witness:
  "sharded_New ([] :: (string mock_state, string) Cache list) [] = Panic ''gouache: buckets is empty'' \<and>
   sharded_New (mock_buckets 2 :: (string mock_state, string) Cache list) [] =
     Done \<lparr>sharded_Options = newOptions [], Buckets = mock_buckets 2\<rparr> \<and>
   Buckets \<lparr>sharded_Options = newOptions [], Buckets = mock_buckets 2 :: (string mock_state, string) Cache list\<rparr>
     = [mock_Cache, mock_Cache]"
  using sharded_New_empty_panics [of "[]" "mock_buckets 2 :: (string mock_state, string) Cache list"]
  by (simp add: mock_buckets_def numeral_2_eq_2)

subsection \<open>Bucket resolution\<close>

text \<open>The value of \<open>binary.BigEndian.Uint32\<close> in arithmetic.\<close>

lemma unat_BigEndian_Uint32:
  "unat (BigEndian_Uint32 b) =
     unat (b ! 0) * 2 ^ 24 + unat (b ! 1) * 2 ^ 16 + unat (b ! 2) * 2 ^ 8 + unat (b ! 3)"
proof -
  let ?A = "push_bit 24 (ucast (b ! 0)) :: 32 word"
  let ?B = "push_bit 16 (ucast (b ! 1)) :: 32 word"
  let ?C = "push_bit 8 (ucast (b ! 2)) :: 32 word"
  let ?D = "ucast (b ! 3) :: 32 word"
  have cd: "?C + ?D = ?C OR ?D"
    by (rule disjunctive_add)
      (auto simp add: bit_push_bit_iff bit_ucast_iff dest: bit_imp_le_length)
  have bcd: "?B + (?C OR ?D) = ?B OR (?C OR ?D)"
    by (rule disjunctive_add)
      (auto simp add: bit_push_bit_iff bit_ucast_iff bit_or_iff dest: bit_imp_le_length)
  have abcd: "?A + (?B OR (?C OR ?D)) = ?A OR (?B OR (?C OR ?D))"
    by (rule disjunctive_add)
      (auto simp add: bit_push_bit_iff bit_ucast_iff bit_or_iff dest: bit_imp_le_length)
  have eq: "BigEndian_Uint32 b = ?A + (?B + (?C + ?D))"
    by (simp only: BigEndian_Uint32_def cd bcd abcd)
  have small: "unat (b ! 0) < 256" "unat (b ! 1) < 256" "unat (b ! 2) < 256" "unat (b ! 3) < 256"
    using unsigned_less [of "b ! 0"] unsigned_less [of "b ! 1"]
      unsigned_less [of "b ! 2"] unsigned_less [of "b ! 3"]
    by simp_all
  have parts: "unat ?A = unat (b ! 0) * 2 ^ 24" "unat ?B = unat (b ! 1) * 2 ^ 16"
    "unat ?C = unat (b ! 2) * 2 ^ 8" "unat ?D = unat (b ! 3)"
    using small
    by (simp_all add: push_bit_eq_mult unat_word_ariths unsigned_ucast_eq take_bit_nat_eq_self)
  show ?thesis
    unfolding eq using small parts by (simp add: unat_word_ariths)
qed

lemma uint32_remainder:
  assumes "0 < n" and "n < 2 ^ 32"
  shows "(of_nat n :: 32 word) \<noteq> 0" and "unat (x mod (of_nat n :: 32 word)) = unat x mod n"
  using assms by (simp_all add: of_nat_neq_0 unat_mod unat_of_nat)

lemma uint64_remainder:
  assumes "0 < n" and "n < 2 ^ 64"
  shows "(of_nat n :: 64 word) \<noteq> 0" and "unat (x mod (of_nat n :: 64 word)) = unat x mod n"
  using assms by (simp_all add: of_nat_neq_0 unat_mod unat_of_nat)

lemma select_bucket_in_range:
  "i < length (Buckets c) \<Longrightarrow> select_bucket c i = Done (Inr i)"
  by (simp add: select_bucket_def)

lemma bucket_error_untouched:
  assumes "bucket c k = Done (Inl e)"
  shows "sharded_Get c k st = (Done (None, Some e), st)"
    and "sharded_Set c k v st = (Done (Some e), st)"
    and "sharded_Delete c k st = (Done (Some e), st)"
  using assms by (simp_all add: sharded_Get_def sharded_Set_def sharded_Delete_def)

lemma bucket_panic_untouched:
  assumes "bucket c k = Panic p"
  shows "sharded_Get c k st = (Panic p, st)"
    and "sharded_Set c k v st = (Panic p, st)"
    and "sharded_Delete c k st = (Panic p, st)"
  using assms by (simp_all add: sharded_Get_def sharded_Set_def sharded_Delete_def)

lemma bucket_factory_fails:
  assumes "HashFactory (sharded_Options c) = Some hashFactory" and "hashFactory k = (h, Some e)"
  shows "bucket c k = Done (Inl e)"
  using assms by (simp add: bucket_def split: option.splits)

lemma bucket_write_fails:
  assumes "HashFactory (sharded_Options c) = Some hashFactory" and "hashFactory k = (Some h, None)"
    and "hash_Write h (written h) (bytes_of k) = Some e"
  shows "bucket c k = Done (Inl e)"
  using assms by (simp add: bucket_def)

lemma bucket_sum32:
  assumes "HashFactory (sharded_Options c) = Some hashFactory" and "hashFactory k = (Some h, None)"
    and "hash_Write h (written h) (bytes_of k) = None"
    and "hash_Size h (written h @ bytes_of k) = 4" and "hash_Sum32 h = Some f"
    and "0 < length (Buckets c)" and "length (Buckets c) < 2 ^ 32"
  shows "bucket c k = Done (Inr (unat (f (written h @ bytes_of k)) mod length (Buckets c)))"
  using assms
  by (simp add: bucket_def Let_def uint32_remainder select_bucket_in_range)

lemma bucket_sum64:
  assumes "HashFactory (sharded_Options c) = Some hashFactory" and "hashFactory k = (Some h, None)"
    and "hash_Write h (written h) (bytes_of k) = None"
    and "hash_Size h (written h @ bytes_of k) = 8" and "hash_Sum64 h = Some g"
    and "0 < length (Buckets c)" and "length (Buckets c) < 2 ^ 63"
  shows "bucket c k = Done (Inr (unat (g (written h @ bytes_of k)) mod length (Buckets c)))"
proof -
  have "length (Buckets c) < 2 ^ 64"
    using assms(7) by simp
  with assms show ?thesis
    by (simp add: bucket_def Let_def uint64_remainder select_bucket_in_range)
qed

lemma bucket_short_digest:
  assumes "HashFactory (sharded_Options c) = Some hashFactory" and "hashFactory k = (Some h, None)"
    and "hash_Write h (written h) (bytes_of k) = None"
    and "hash_Size h (written h @ bytes_of k) \<noteq> 4" and "hash_Size h (written h @ bytes_of k) \<noteq> 8"
    and "length (hash_Sum h (written h @ bytes_of k) []) < 4"
    and "0 < length (Buckets c)"
  shows "bucket c k = Done (Inr 0)"
  using assms by (simp add: bucket_def Let_def select_bucket_in_range)

lemma bucket_digest_prefix:
  assumes "HashFactory (sharded_Options c) = Some hashFactory" and "hashFactory k = (Some h, None)"
    and "hash_Write h (written h) (bytes_of k) = None"
    and "hash_Size h (written h @ bytes_of k) \<noteq> 4" and "hash_Size h (written h @ bytes_of k) \<noteq> 8"
    and "digest = hash_Sum h (written h @ bytes_of k) []"
    and "4 \<le> length digest"
    and "0 < length (Buckets c)"
  shows "bucket c k =
           Done (Inr ((unat (digest ! 0) * 2 ^ 24 + unat (digest ! 1) * 2 ^ 16 +
                       unat (digest ! 2) * 2 ^ 8 + unat (digest ! 3)) mod length (Buckets c)))"
  using assms
  by (simp add: bucket_def Let_def select_bucket_in_range unat_BigEndian_Uint32)


text \<open>
  Claim C4. For a hash of four bytes the bucket is to be the 32-bit sum modulo the number
  of buckets, for every number of buckets from 1 on. The code misses this for \<open>2 ^ 32\<close>
  buckets or more: the divisor of the four-byte case is \<open>uint32(len(cache.Buckets))\<close>,
  which keeps the low 32 bits of the count, where the eight-byte case divides by
  \<open>uint64(len(cache.Buckets))\<close> and the last case by \<open>len(cache.Buckets)\<close>, which keep
  the count. With the default hash and 4294967297 buckets, \<open>New\<close> returns a cache, the
  divisor is 1 and the key \<open>k1\<close> goes to bucket 0, where the sum modulo the count is
  2554167489; with 4294967296 buckets the divisor is 0 and \<open>bucket\<close> panics.
\<close>

theorem bucket_uint32_truncation:
  "sharded_New (mock_buckets 4294967297 :: (string mock_state, string) Cache list) [] =
     Done \<lparr>sharded_Options = newOptions [], Buckets = mock_buckets 4294967297\<rparr> \<and>
   bucket \<lparr>sharded_Options = newOptions [],
           Buckets = mock_buckets 4294967297 :: (string mock_state, string) Cache list\<rparr> ''k1''
     = Done (Inr 0) \<and>
   hash_Size fnv_New32a (bytes_of ''k1'') = 4 \<and>
   hash_Sum32 fnv_New32a = Some fnv32a \<and>
   unat (fnv32a (bytes_of ''k1'')) mod 4294967297 = 2554167489 \<and>
   bucket \<lparr>sharded_Options = newOptions [],
           Buckets = mock_buckets 4294967296 :: (string mock_state, string) Cache list\<rparr> ''k1''
     = Panic ''integer divide by zero''"
  by (simp add: sharded_New_def bucket_def newOptions_def Apply_def Correct_def fnv_New32a_def
        fnv32a_def bytes_of_def mock_buckets_def select_bucket_def)

text \<open>
  What \<open>bucket\<close> computes away from that truncation, with the 64-bit \<open>int\<close>. For a cache
  with a factory and between 1 and \<open>2 ^ 63 - 1\<close> buckets (every Go slice is shorter than
  \<open>2 ^ 63\<close>): when the factory fails or the write of the key fails, \<open>bucket\<close> returns that
  error, and \<open>Get\<close>, \<open>Set\<close> and \<open>Delete\<close> return it and leave the state of every bucket
  as it was. Otherwise, for a hash of size 4 that has \<open>Sum32\<close>, and fewer than \<open>2 ^ 32\<close>
  buckets, the bucket is the 32-bit sum modulo the count; for a hash of size 8 that has
  \<open>Sum64\<close>, the 64-bit sum modulo the count; for any other size, bucket 0 when the digest
  has fewer than four bytes, and otherwise the big-endian value of the first four bytes of
  the digest modulo the count.
\<close>

lemma bucket_index_below_truncation:
  assumes factory: "HashFactory (sharded_Options c) = Some hashFactory"
    and count: "1 \<le> length (Buckets c)" "length (Buckets c) < 2 ^ 63"
  shows
    "(\<forall>h e. hashFactory k = (h, Some e) \<longrightarrow>
        bucket c k = Done (Inl e) \<and>
        sharded_Get c k st = (Done (None, Some e), st) \<and>
        sharded_Set c k v st = (Done (Some e), st) \<and>
        sharded_Delete c k st = (Done (Some e), st)) \<and>
     (\<forall>h ws. hashFactory k = (Some h, None) \<and> ws = written h @ bytes_of k \<longrightarrow>
        (\<forall>e. hash_Write h (written h) (bytes_of k) = Some e \<longrightarrow>
           bucket c k = Done (Inl e) \<and>
           sharded_Get c k st = (Done (None, Some e), st) \<and>
           sharded_Set c k v st = (Done (Some e), st) \<and>
           sharded_Delete c k st = (Done (Some e), st)) \<and>
        (hash_Write h (written h) (bytes_of k) = None \<longrightarrow>
           (\<forall>f. hash_Size h ws = 4 \<and> hash_Sum32 h = Some f \<and> length (Buckets c) < 2 ^ 32 \<longrightarrow>
              bucket c k = Done (Inr (unat (f ws) mod length (Buckets c)))) \<and>
           (\<forall>g. hash_Size h ws = 8 \<and> hash_Sum64 h = Some g \<longrightarrow>
              bucket c k = Done (Inr (unat (g ws) mod length (Buckets c)))) \<and>
           (\<forall>digest. hash_Size h ws \<noteq> 4 \<and> hash_Size h ws \<noteq> 8 \<and> digest = hash_Sum h ws [] \<longrightarrow>
              (length digest < 4 \<longrightarrow> bucket c k = Done (Inr 0)) \<and>
              (4 \<le> length digest \<longrightarrow>
                 bucket c k =
                   Done (Inr ((unat (digest ! 0) * 2 ^ 24 + unat (digest ! 1) * 2 ^ 16 +
                               unat (digest ! 2) * 2 ^ 8 + unat (digest ! 3))
                              mod length (Buckets c)))))))"
proof -
  have pos: "0 < length (Buckets c)"
    using count(1) by linarith
  have no_hash: "bucket c k = Done (Inl e) \<and>
        sharded_Get c k st = (Done (None, Some e), st) \<and>
        sharded_Set c k v st = (Done (Some e), st) \<and>
        sharded_Delete c k st = (Done (Some e), st)"
    if "hashFactory k = (h, Some e)" for h e
    using bucket_factory_fails [OF factory that] by (simp add: bucket_error_untouched)
  have no_write: "bucket c k = Done (Inl e) \<and>
        sharded_Get c k st = (Done (None, Some e), st) \<and>
        sharded_Set c k v st = (Done (Some e), st) \<and>
        sharded_Delete c k st = (Done (Some e), st)"
    if "hashFactory k = (Some h, None)" "hash_Write h (written h) (bytes_of k) = Some e" for h e
    using bucket_write_fails [OF factory that] by (simp add: bucket_error_untouched)
  from no_hash no_write bucket_sum32 [OF factory _ _ _ _ pos]
    bucket_sum64 [OF factory _ _ _ _ pos count(2)]
    bucket_short_digest [OF factory _ _ _ _ _ pos]
    bucket_digest_prefix [OF factory _ _ _ _ _ _ pos]
  show ?thesis
    by (intro conjI allI impI) blast+
qed


lemma mock_sharded_simps:
  "HashFactory (sharded_Options (mock_sharded hf n)) = Some hf"
  "length (Buckets (mock_sharded hf n)) = n"
  by (simp_all add: mock_sharded_def mock_buckets_def newOptions_def Apply_def Correct_def
        WithHashFactory_def)

lemma bucket_index_examples:
  "sharded_Get (mock_sharded failing_factory 3 :: (string mock_state, string) sharded_cache)
       ''k1'' (\<lambda>i. ([], []))
     = (Done (None, Some (ErrOther ''no hash'')), (\<lambda>i. ([], []))) \<and>
   sharded_Set (mock_sharded (factory_of broken_hash) 3 :: (string mock_state, string) sharded_cache)
       ''k1'' (Some ''v'') (\<lambda>i. ([], []))
     = (Done (Some (ErrOther ''write failed'')), (\<lambda>i. ([], []))) \<and>
   bucket (mock_sharded (factory_of fnv_New32a) 2 :: (string mock_state, string) sharded_cache) ''k1''
     = Done (Inr 1) \<and>
   bucket (mock_sharded (factory_of fnv_New64a) 3 :: (string mock_state, string) sharded_cache) ''k1''
     = Done (Inr 2) \<and>
   bucket (mock_sharded (factory_of wide_hash) 5 :: (string mock_state, string) sharded_cache) ''k1''
     = Done (Inr 1) \<and>
   bucket (mock_sharded (factory_of short_hash) 3 :: (string mock_state, string) sharded_cache) ''k1''
     = Done (Inr 0)"
proof -
  let ?st = "(\<lambda>i. ([], [])) :: nat \<Rightarrow> string mock_state"
  have a: "sharded_Get (mock_sharded failing_factory 3 :: (string mock_state, string) sharded_cache)
              ''k1'' ?st = (Done (None, Some (ErrOther ''no hash'')), ?st)"
    using bucket_index_below_truncation
            [of "mock_sharded failing_factory 3 :: (string mock_state, string) sharded_cache"
                failing_factory "''k1''" ?st "Some ''v''"]
    by (simp add: mock_sharded_simps failing_factory_def)
  have b: "sharded_Set (mock_sharded (factory_of broken_hash) 3 :: (string mock_state, string) sharded_cache)
              ''k1'' (Some ''v'') ?st = (Done (Some (ErrOther ''write failed'')), ?st)"
    using bucket_index_below_truncation
            [of "mock_sharded (factory_of broken_hash) 3 :: (string mock_state, string) sharded_cache"
                "factory_of broken_hash" "''k1''" ?st "Some ''v''"]
    by (simp add: mock_sharded_simps factory_of_def broken_hash_def fnv_New32a_def)
  have c: "bucket (mock_sharded (factory_of fnv_New32a) 2 :: (string mock_state, string) sharded_cache) ''k1''
             = Done (Inr 1)"
    using bucket_index_below_truncation
            [of "mock_sharded (factory_of fnv_New32a) 2 :: (string mock_state, string) sharded_cache"
                "factory_of fnv_New32a" "''k1''" ?st "Some ''v''"]
    by (simp add: mock_sharded_simps factory_of_def fnv_New32a_def fnv32a_def bytes_of_def)
  have d: "bucket (mock_sharded (factory_of fnv_New64a) 3 :: (string mock_state, string) sharded_cache) ''k1''
             = Done (Inr 2)"
    using bucket_index_below_truncation
            [of "mock_sharded (factory_of fnv_New64a) 3 :: (string mock_state, string) sharded_cache"
                "factory_of fnv_New64a" "''k1''" ?st "Some ''v''"]
    by (simp add: mock_sharded_simps factory_of_def fnv_New64a_def fnv64a_def bytes_of_def)
  have e: "bucket (mock_sharded (factory_of wide_hash) 5 :: (string mock_state, string) sharded_cache) ''k1''
             = Done (Inr 1)"
    using bucket_index_below_truncation
            [of "mock_sharded (factory_of wide_hash) 5 :: (string mock_state, string) sharded_cache"
                "factory_of wide_hash" "''k1''" ?st "Some ''v''"]
    by (simp add: mock_sharded_simps factory_of_def wide_hash_def bytes_of_def)
  have f: "bucket (mock_sharded (factory_of short_hash) 3 :: (string mock_state, string) sharded_cache) ''k1''
             = Done (Inr 0)"
    using bucket_index_below_truncation
            [of "mock_sharded (factory_of short_hash) 3 :: (string mock_state, string) sharded_cache"
                "factory_of short_hash" "''k1''" ?st "Some ''v''"]
    by (simp add: mock_sharded_simps factory_of_def short_hash_def bytes_of_def)
  from a b c d e f show ?thesis by blast
qed

text \<open>
  Claim C10. When the factory returns a hash and the key is written without error, a
  hash that reports a size of four bytes and has no \<open>Sum32\<close> method, or a size of eight
  bytes and no \<open>Sum64\<close> method, makes the type assertion of \<open>bucket\<close> panic: \<open>bucket\<close>
  panics, and so do \<open>Get\<close>, \<open>Set\<close> and \<open>Delete\<close>, which return no error and touch no
  bucket.
\<close>

theorem bucket_unchecked_downcast_panics:
  assumes "HashFactory (sharded_Options c) = Some hashFactory"
    and "hashFactory k = (Some h, None)"
    and "hash_Write h (written h) (bytes_of k) = None"
  shows
    "(hash_Size h (written h @ bytes_of k) = 4 \<and> hash_Sum32 h = None \<longrightarrow>
        bucket c k = Panic ''interface conversion: not hash.Hash32'' \<and>
        sharded_Get c k st = (Panic ''interface conversion: not hash.Hash32'', st) \<and>
        sharded_Set c k v st = (Panic ''interface conversion: not hash.Hash32'', st) \<and>
        sharded_Delete c k st = (Panic ''interface conversion: not hash.Hash32'', st)) \<and>
     (hash_Size h (written h @ bytes_of k) = 8 \<and> hash_Sum64 h = None \<longrightarrow>
        bucket c k = Panic ''interface conversion: not hash.Hash64'' \<and>
        sharded_Get c k st = (Panic ''interface conversion: not hash.Hash64'', st) \<and>
        sharded_Set c k v st = (Panic ''interface conversion: not hash.Hash64'', st) \<and>
        sharded_Delete c k st = (Panic ''interface conversion: not hash.Hash64'', st))"
proof -
  have p4: "bucket c k = Panic ''interface conversion: not hash.Hash32''"
    if "hash_Size h (written h @ bytes_of k) = 4" "hash_Sum32 h = None"
    using assms that by (simp add: bucket_def Let_def)
  have p8: "bucket c k = Panic ''interface conversion: not hash.Hash64''"
    if "hash_Size h (written h @ bytes_of k) = 8" "hash_Sum64 h = None"
    using assms that by (simp add: bucket_def Let_def)
  show ?thesis
    using p4 p8 by (auto simp add: bucket_panic_untouched)
qed

theorem bucket_unchecked_downcast_panics_witness:
  "sharded_Get (mock_sharded (factory_of plain_hash4) 2 :: (string mock_state, string) sharded_cache)
       ''k1'' (\<lambda>i. ([], []))
     = (Panic ''interface conversion: not hash.Hash32'', (\<lambda>i. ([], []))) \<and>
   sharded_Set (mock_sharded (factory_of plain_hash4) 2 :: (string mock_state, string) sharded_cache)
       ''k1'' (Some ''v'') (\<lambda>i. ([], []))
     = (Panic ''interface conversion: not hash.Hash32'', (\<lambda>i. ([], []))) \<and>
   sharded_Delete (mock_sharded (factory_of plain_hash8) 2 :: (string mock_state, string) sharded_cache)
       ''k1'' (\<lambda>i. ([], []))
     = (Panic ''interface conversion: not hash.Hash64'', (\<lambda>i. ([], [])))"
proof -
  let ?st = "(\<lambda>i. ([], [])) :: nat \<Rightarrow> string mock_state"
  let ?c4 = "mock_sharded (factory_of plain_hash4) 2 :: (string mock_state, string) sharded_cache"
  let ?c8 = "mock_sharded (factory_of plain_hash8) 2 :: (string mock_state, string) sharded_cache"
  have p4: "sharded_Get ?c4 ''k1'' ?st = (Panic ''interface conversion: not hash.Hash32'', ?st) \<and>
            sharded_Set ?c4 ''k1'' (Some ''v'') ?st = (Panic ''interface conversion: not hash.Hash32'', ?st)"
    using bucket_unchecked_downcast_panics
            [of ?c4 "factory_of plain_hash4" "''k1''" plain_hash4 ?st "Some ''v''"]
    by (simp add: mock_sharded_simps factory_of_def plain_hash4_def fnv_New32a_def)
  have p8: "sharded_Delete ?c8 ''k1'' ?st = (Panic ''interface conversion: not hash.Hash64'', ?st)"
    using bucket_unchecked_downcast_panics
            [of ?c8 "factory_of plain_hash8" "''k1''" plain_hash8 ?st "Some ''v''"]
    by (simp add: mock_sharded_simps factory_of_def plain_hash8_def fnv_New64a_def)
  from p4 p8 show ?thesis by blast
qed

end
